theory Spec2Isabelle
  imports Main
begin

section \<open>Process configuration (package config)\<close>

text \<open>
  The process environment is a partial map from variable names to values. Go's
  \<^verbatim>\<open>os.Getenv\<close> returns the empty string for a variable that is not set, so an
  unset variable and one set to the empty string look the same to its caller.
\<close>

type_synonym environment = "string \<Rightarrow> string option"

definition os_Getenv :: "environment \<Rightarrow> string \<Rightarrow> string" where
  "os_Getenv env key = (case env key of None \<Rightarrow> [] | Some v \<Rightarrow> v)"

text \<open>\<^verbatim>\<open>getEnv\<close> retrieves an environment variable with a default value.\<close>

definition getEnv :: "environment \<Rightarrow> string \<Rightarrow> string \<Rightarrow> string" where
  "getEnv env key defaultValue =
     (let v = os_Getenv env key in if v = [] then defaultValue else v)"

record Config =
  DBHost :: string
  DBPort :: string
  DBUser :: string
  DBPassword :: string
  DBName :: string
  DBSSLMode :: string
  JWTSecret :: string
  SMTPHost :: string
  SMTPPort :: string
  SMTPUsername :: string
  SMTPPassword :: string
  SMTPFromEmail :: string
  AppPort :: string
  ActivateBaseURL :: string

text \<open>
  The package keeps two globals (\<^verbatim>\<open>once\<close> and \<^verbatim>\<open>config\<close>); together with the
  environment and the lines written through \<^verbatim>\<open>log.Println\<close> they form the state that
  \<^verbatim>\<open>LoadConfig\<close> reads and writes.
\<close>

record Process =
  environ :: environment
  once_done :: bool
  config :: "Config option"
  log_lines :: "string list"

text \<open>
  \<^verbatim>\<open>godotenv.Load\<close> belongs to a third-party package: it is a parameter here, a function
  from the environment to its error (if any) and the environment it leaves behind.
\<close>

type_synonym dotenv_Load = "environment \<Rightarrow> string option \<times> environment"

definition once_Do :: "dotenv_Load \<Rightarrow> Process \<Rightarrow> Process" where
  "once_Do load p =
     (if once_done p then p
      else (case load (environ p) of
              (err, env') \<Rightarrow>
                p\<lparr>environ := env', once_done := True,
                  log_lines := log_lines p @
                    (case err of
                       None \<Rightarrow> []
                     | Some _ \<Rightarrow> [''Warning: .env file not found. Using default values.''])\<rparr>))"

definition LoadConfig :: "dotenv_Load \<Rightarrow> Process \<Rightarrow> Config \<times> Process" where
  "LoadConfig load p =
     (let p1 = once_Do load p;
          env = environ p1;
          dbHost = getEnv env ''DB_HOST'' ''localhost'';
          dbPortStr = getEnv env ''DB_PORT'' ''5432'';
          dbUser = getEnv env ''DB_USER'' ''postgres'';
          dbPassword = getEnv env ''DB_PASSWORD'' ''postgres'';
          dbName = getEnv env ''DB_NAME'' ''postgres'';
          dbSslMode = getEnv env ''DB_SSL_MODE'' ''disable'';
          jwtSecret = getEnv env ''JWT_SECRET'' ''secret'';
          smtpHost = getEnv env ''SMTP_HOST'' ''smtp.example.com'';
          smtpPortStr = getEnv env ''SMTP_PORT'' ''587'';
          smtpUsername = getEnv env ''SMTP_USERNAME'' [];
          smtpPassword = getEnv env ''SMTP_PASSWORD'' [];
          smtpFromEmail = getEnv env ''SMTP_FROM_EMAIL'' ''noreply@example.com'';
          appPort = getEnv env ''APP_PORT'' ''8080'';
          activateBaseURL = getEnv env ''ACTIVATE_BASE_URL'' ''http://localhost:3000'';
          cfg = \<lparr>DBHost = dbHost, DBPort = dbPortStr, DBUser = dbUser,
                 DBPassword = dbPassword, DBName = dbName, DBSSLMode = dbSslMode,
                 JWTSecret = jwtSecret, SMTPHost = smtpHost, SMTPPort = smtpPortStr,
                 SMTPUsername = smtpUsername, SMTPPassword = smtpPassword,
                 SMTPFromEmail = smtpFromEmail, AppPort = appPort,
                 ActivateBaseURL = activateBaseURL\<rparr>
      in (cfg, p1\<lparr>config := Some cfg\<rparr>))"

text \<open>The environment that the \<^verbatim>\<open>getEnv\<close> calls of \<^verbatim>\<open>LoadConfig\<close> read.\<close>

definition effective_env :: "dotenv_Load \<Rightarrow> Process \<Rightarrow> environment" where
  "effective_env load p = environ (once_Do load p)"



section \<open>User model and repository\<close>

record User =
  ID :: int
  Email :: string
  Password :: string

text \<open>
  The repository works on the \<^verbatim>\<open>users\<close> table of the migration:
  \<^verbatim>\<open>id SERIAL PRIMARY KEY, email VARCHAR(255) UNIQUE NOT NULL, password VARCHAR(255) NOT NULL\<close>.
  The table is the list of its rows; \<^verbatim>\<open>serial\<close> is the next value of the id sequence;
  \<^verbatim>\<open>reachable\<close> says whether the connection behind \<^verbatim>\<open>*sql.DB\<close> answers at all.
  A failed statement leaves the rows as they were.
\<close>

datatype db_error = ErrNoRows | UniqueViolation | ValueTooLong | ConnectionFailed

record UserRepository =
  users :: "User list"
  serial :: int
  reachable :: bool

definition CreateUser :: "UserRepository \<Rightarrow> string \<Rightarrow> string \<Rightarrow> db_error option \<times> UserRepository" where
  "CreateUser r email password =
     (if reachable r then
        (if 255 < length email \<or> 255 < length password then (Some ValueTooLong, r)
         else if email \<in> set (map Email (users r)) then (Some UniqueViolation, r)
         else (None, r\<lparr>users := users r @ [\<lparr>ID = serial r, Email = email, Password = password\<rparr>],
                        serial := serial r + 1\<rparr>))
      else (Some ConnectionFailed, r))"

definition FindUserByEmail :: "UserRepository \<Rightarrow> string \<Rightarrow> db_error + User" where
  "FindUserByEmail r email =
     (if reachable r then
        (case find (\<lambda>u. Email u = email) (users r) of
           None \<Rightarrow> Inl ErrNoRows
         | Some user \<Rightarrow> Inr user)
      else Inl ConnectionFailed)"


section \<open>Password hashing (package utils)\<close>

text \<open>
  \<^verbatim>\<open>golang.org/x/crypto/bcrypt\<close> is a third-party package. Its two functions are
  parameters: \<^verbatim>\<open>GenerateFromPassword\<close> gives the bytes and the error of one call (the
  salt it draws is part of that call's outcome), \<^verbatim>\<open>CompareHashAndPassword\<close> gives the
  error of one comparison, \<^verbatim>\<open>None\<close> for Go's nil.
\<close>

type_synonym go_error = string

record bcrypt =
  GenerateFromPassword :: "string \<Rightarrow> nat \<Rightarrow> string \<times> go_error option"
  CompareHashAndPassword :: "string \<Rightarrow> string \<Rightarrow> go_error option"

definition DefaultCost :: nat where
  "DefaultCost = 10"

definition HashPassword :: "bcrypt \<Rightarrow> string \<Rightarrow> string \<times> go_error option" where
  "HashPassword bc password =
     (case GenerateFromPassword bc password DefaultCost of (bytes, err) \<Rightarrow> (bytes, err))"

definition CheckPasswordHash :: "bcrypt \<Rightarrow> string \<Rightarrow> string \<Rightarrow> bool" where
  "CheckPasswordHash bc password hash = (CompareHashAndPassword bc hash password = None)"


section \<open>Signed tokens\<close>

text \<open>
  A token string is represented by what its three dot-separated segments decode to: the
  algorithm named in the header, the claims, and the signature. Every other string,
  the empty one among them, is \<^verbatim>\<open>Unparsable\<close>.
\<close>

datatype claim_value = Num int | Str string

type_synonym MapClaims = "(string \<times> claim_value) list"

datatype token_string = Unparsable string | Compact string MapClaims string

record Token =
  Method :: string
  Claims :: MapClaims
  Valid :: bool

definition SigningMethodHS256 :: string where
  "SigningMethodHS256 = ''HS256''"

definition NewWithClaims :: "string \<Rightarrow> MapClaims \<Rightarrow> Token" where
  "NewWithClaims method claims = \<lparr>Method = method, Claims = claims, Valid = False\<rparr>"

text \<open>
  \<^verbatim>\<open>github.com/golang-jwt/jwt/v5\<close> is a third-party package as well. The handlers take
  its two entry points as parameters: \<^verbatim>\<open>SignedString\<close> (token and key to token string
  and error) and \<^verbatim>\<open>Parse\<close> (token string, key function and the clock's reading, in
  seconds, to an error or the parsed token).
\<close>

record 'e jwt =
  SignedString :: "Token \<Rightarrow> string \<Rightarrow> token_string \<times> 'e option"
  Parse :: "token_string \<Rightarrow> (Token \<Rightarrow> string) \<Rightarrow> int \<Rightarrow> 'e + Token"


section \<open>HTTP handlers (package handlers)\<close>

datatype body_value = Text string | TokenText token_string

type_synonym gin_H = "(string \<times> body_value) list"

record Response =
  status :: nat
  body :: gin_H

abbreviation JSON :: "nat \<Rightarrow> gin_H \<Rightarrow> Response" where
  "JSON code obj \<equiv> \<lparr>status = code, body = obj\<rparr>"

abbreviation StatusOK :: nat where "StatusOK \<equiv> 200"
abbreviation StatusCreated :: nat where "StatusCreated \<equiv> 201"
abbreviation StatusBadRequest :: nat where "StatusBadRequest \<equiv> 400"
abbreviation StatusUnauthorized :: nat where "StatusUnauthorized \<equiv> 401"
abbreviation StatusConflict :: nat where "StatusConflict \<equiv> 409"
abbreviation StatusInternalServerError :: nat where "StatusInternalServerError \<equiv> 500"

text \<open>
  \<^verbatim>\<open>c.ShouldBindJSON(&user)\<close> is gin's: a request reaches the handler as the outcome of
  that call, an error with its message or the bound \<^verbatim>\<open>models.User\<close>. The struct has
  no binding tags, so a body that decodes is bound whatever its field values are.
\<close>

datatype bind_result = BindError string | Bound User

record AuthHandler =
  userRepo :: UserRepository
  jwtSecret :: string

definition NewAuthHandler :: "UserRepository \<Rightarrow> string \<Rightarrow> AuthHandler" where
  "NewAuthHandler repo secret = \<lparr>userRepo = repo, jwtSecret = secret\<rparr>"

text \<open>
  What a handler does besides answering: the calls it makes to the hasher and to the
  repository's insert, in order.
\<close>

datatype call = Hash_call string | Insert_call string string

definition Register :: "bcrypt \<Rightarrow> AuthHandler \<Rightarrow> bind_result \<Rightarrow> Response \<times> AuthHandler \<times> call list" where
  "Register bc h req =
     (case req of
        BindError msg \<Rightarrow> (JSON StatusBadRequest [(''error'', Text msg)], h, [])
      | Bound user \<Rightarrow>
          (case HashPassword bc (Password user) of
             (hashedPassword, Some _) \<Rightarrow>
               (JSON StatusInternalServerError [(''error'', Text ''Failed to hash password'')], h,
                [Hash_call (Password user)])
           | (hashedPassword, None) \<Rightarrow>
               (case CreateUser (userRepo h) (Email user) hashedPassword of
                  (Some _, repo') \<Rightarrow>
                    (JSON StatusInternalServerError [(''error'', Text ''Failed to create user'')],
                     h\<lparr>userRepo := repo'\<rparr>,
                     [Hash_call (Password user), Insert_call (Email user) hashedPassword])
                | (None, repo') \<Rightarrow>
                    (JSON StatusCreated [(''message'', Text ''User created successfully'')],
                     h\<lparr>userRepo := repo'\<rparr>,
                     [Hash_call (Password user), Insert_call (Email user) hashedPassword]))))"

text \<open>The token \<^verbatim>\<open>Login\<close> builds for a user found in the repository, at clock reading \<open>now\<close>.\<close>

definition login_token :: "User \<Rightarrow> int \<Rightarrow> Token" where
  "login_token dbUser now =
     NewWithClaims SigningMethodHS256
       [(''user_id'', Num (ID dbUser)),
        (''email'', Str (Email dbUser)),
        (''exp'', Num (now + 24 * 3600))]"

definition Login :: "bcrypt \<Rightarrow> 'e jwt \<Rightarrow> AuthHandler \<Rightarrow> int \<Rightarrow> bind_result \<Rightarrow> Response" where
  "Login bc jw h now req =
     (case req of
        BindError msg \<Rightarrow> JSON StatusBadRequest [(''error'', Text msg)]
      | Bound user \<Rightarrow>
          (case FindUserByEmail (userRepo h) (Email user) of
             Inl _ \<Rightarrow> JSON StatusUnauthorized [(''error'', Text ''Invalid credentials'')]
           | Inr dbUser \<Rightarrow>
               (if CheckPasswordHash bc (Password user) (Password dbUser) then
                  (case SignedString jw (login_token dbUser now) (jwtSecret h) of
                     (tokenString, Some _) \<Rightarrow>
                       JSON StatusInternalServerError [(''error'', Text ''Failed to generate token'')]
                   | (tokenString, None) \<Rightarrow> JSON StatusOK [(''token'', TokenText tokenString)])
                else JSON StatusUnauthorized [(''error'', Text ''Invalid credentials'')])))"


section \<open>Authentication middleware (package middleware)\<close>

datatype middleware_result = Next | AbortWithStatusJSON Response

definition AuthMiddleware :: "'e jwt \<Rightarrow> Config \<Rightarrow> int \<Rightarrow> token_string \<Rightarrow> middleware_result" where
  "AuthMiddleware jw cfg now tokenString =
     (if tokenString = Unparsable [] then
        AbortWithStatusJSON (JSON StatusUnauthorized [(''error'', Text ''Unauthorized'')])
      else
        (case Parse jw tokenString (\<lambda>token. JWTSecret cfg) now of
           Inl _ \<Rightarrow> AbortWithStatusJSON (JSON StatusUnauthorized [(''error'', Text ''Invalid token'')])
         | Inr token \<Rightarrow>
             (if Valid token then Next
              else AbortWithStatusJSON (JSON StatusUnauthorized [(''error'', Text ''Invalid token'')]))))"


section \<open>Identity token issuer and verifier\<close>

text \<open>
  Modelled from the spec: the signing and parsing that \<^verbatim>\<open>SignedString\<close> and
  \<^verbatim>\<open>jwt.Parse\<close> do inside the JWT library, which is not part of the repository. The
  spec's words (4.3): the payload is signed with a server secret using a symmetric MAC;
  verification recomputes the signature before trusting any claim, checks expiry after
  the signature, and answers Malformed for structurally invalid input (wrong encoding,
  missing fields), BadSignature, or Expired once the clock is past the expiry. The MAC
  itself is a parameter.
\<close>

datatype TokenError = Malformed | BadSignature | Expired

type_synonym mac = "string \<Rightarrow> string \<times> MapClaims \<Rightarrow> string"

definition claim_exp :: "MapClaims \<Rightarrow> int option" where
  "claim_exp claims =
     (case map_of claims ''exp'' of
        Some (Num n) \<Rightarrow> Some n
      | Some (Str _) \<Rightarrow> None
      | None \<Rightarrow> None)"

definition hs_SignedString :: "mac \<Rightarrow> Token \<Rightarrow> string \<Rightarrow> token_string \<times> TokenError option" where
  "hs_SignedString m token key =
     (Compact (Method token) (Claims token) (m key (Method token, Claims token)), None)"

definition hs_Parse :: "mac \<Rightarrow> token_string \<Rightarrow> (Token \<Rightarrow> string) \<Rightarrow> int \<Rightarrow> TokenError + Token" where
  "hs_Parse m tokenString keyFunc now =
     (case tokenString of
        Unparsable _ \<Rightarrow> Inl Malformed
      | Compact alg claims sig \<Rightarrow>
          (let token = \<lparr>Method = alg, Claims = claims, Valid = False\<rparr> in
           if m (keyFunc token) (alg, claims) = sig then
             (case claim_exp claims of
                None \<Rightarrow> Inl Malformed
              | Some expiresAt \<Rightarrow>
                  if expiresAt < now then Inl Expired else Inr (token\<lparr>Valid := True\<rparr>))
           else Inl BadSignature))"

definition hs_jwt :: "mac \<Rightarrow> TokenError jwt" where
  "hs_jwt m = \<lparr>SignedString = hs_SignedString m, Parse = hs_Parse m\<rparr>"


section \<open>Activation token manager\<close>

text \<open>
  Modelled from the spec: the activation token manager, of which the repository holds
  only the \<^verbatim>\<open>/activate/{token}\<close> declaration and the \<^verbatim>\<open>ActivateBaseURL\<close> setting.
  The spec's words (3, 4.2): a token has an opaque random value, an owning user id, an
  expiry timestamp and a consumed flag; \<^verbatim>\<open>Issue(userID, ttl)\<close> records a fresh value
  with expiry now + ttl; \<^verbatim>\<open>Validate(tokenValue)\<close> looks the token up; if missing,
  signals NotFound; if past expiry, signals Expired without consuming; otherwise marks
  it Consumed and returns the owning user id, every later caller observing
  AlreadyConsumed. The random value drawn by \<^verbatim>\<open>Issue\<close> is a parameter.
\<close>

record ActivationToken =
  owner :: int
  expiry :: int
  consumed :: bool

type_synonym token_store = "string \<Rightarrow> ActivationToken option"

datatype ActivationTokenError = NotFound | ActivationExpired | AlreadyConsumed

definition Issue :: "string \<Rightarrow> token_store \<Rightarrow> int \<Rightarrow> int \<Rightarrow> int \<Rightarrow> string \<times> token_store" where
  "Issue random store now userID ttl =
     (random, store(random \<mapsto> \<lparr>owner = userID, expiry = now + ttl, consumed = False\<rparr>))"

definition Validate :: "token_store \<Rightarrow> int \<Rightarrow> string \<Rightarrow> (ActivationTokenError + int) \<times> token_store" where
  "Validate store now tokenValue =
     (case store tokenValue of
        None \<Rightarrow> (Inl NotFound, store)
      | Some tok \<Rightarrow>
          if expiry tok < now then (Inl ActivationExpired, store)
          else if consumed tok then (Inl AlreadyConsumed, store)
          else (Inr (owner tok), store(tokenValue \<mapsto> tok\<lparr>consumed := True\<rparr>)))"

text \<open>
  The state of the spec's per-token state machine, read off a stored token at a clock
  reading: Consumed once the flag is set, Expired when the clock is past the expiry of
  a token never consumed, Issued otherwise.
\<close>

datatype token_state = Issued | Consumed | Expired_unconsumed

definition state_of :: "ActivationToken \<Rightarrow> int \<Rightarrow> token_state" where
  "state_of tok now =
     (if consumed tok then Consumed
      else if expiry tok < now then Expired_unconsumed
      else Issued)"

text \<open>A history of \<^verbatim>\<open>Validate\<close> calls, each with its clock reading and token value.\<close>

fun validations :: "token_store \<Rightarrow> (int \<times> string) list \<Rightarrow> token_store" where
  "validations store [] = store"
| "validations store ((now, tokenValue) # calls) =
     validations (snd (Validate store now tokenValue)) calls"


section \<open>Test doubles\<close>

text \<open>
  Stand-ins for the libraries, used where a handler is run on a concrete request: a
  hasher that prefixes the password and compares by recomputing, a signer whose
  signature is the key itself, and a keyed checksum that returns its key.
\<close>

definition plain_bcrypt :: bcrypt where
  "plain_bcrypt =
     \<lparr>GenerateFromPassword = (\<lambda>password cost. (''$2a$10$'' @ password, None)),
      CompareHashAndPassword =
        (\<lambda>hash password. if hash = ''$2a$10$'' @ password then None else Some ''mismatch'')\<rparr>"

definition plain_jwt :: "go_error jwt" where
  "plain_jwt =
     \<lparr>SignedString = (\<lambda>token key. (Compact (Method token) (Claims token) key, None)),
      Parse =
        (\<lambda>tokenString keyFunc now.
           case tokenString of
             Unparsable _ \<Rightarrow> Inl ''token is malformed''
           | Compact alg claims sig \<Rightarrow>
               if sig = keyFunc \<lparr>Method = alg, Claims = claims, Valid = False\<rparr>
               then Inr \<lparr>Method = alg, Claims = claims, Valid = True\<rparr>
               else Inl ''signature is invalid'')\<rparr>"

definition key_mac :: mac where
  "key_mac key signed = key"

definition fresh_handler :: AuthHandler where
  "fresh_handler = NewAuthHandler \<lparr>users = [], serial = 1, reachable = True\<rparr> ''secret''"

definition sample_user :: User where
  "sample_user = \<lparr>ID = 0, Email = ''a@b.com'', Password = ''password1''\<rparr>"

text \<open>The handler as one successful registration of \<^verbatim>\<open>sample_user\<close> leaves it.\<close>

definition registered_handler :: AuthHandler where
  "registered_handler = fst (snd (Register plain_bcrypt fresh_handler (Bound sample_user)))"

definition no_dotenv :: dotenv_Load where
  "no_dotenv env = (Some ''open .env: no such file or directory'', env)"

text \<open>Two activation tokens that expire at 100: one never consumed, one consumed.\<close>

definition sample_store :: token_store where
  "sample_store =
     [''t-open'' \<mapsto> \<lparr>owner = 1, expiry = 100, consumed = False\<rparr>,
      ''t-used'' \<mapsto> \<lparr>owner = 2, expiry = 100, consumed = True\<rparr>]"

definition bare_process :: Process where
  "bare_process = \<lparr>environ = Map.empty, once_done = False, config = None, log_lines = []\<rparr>"


section \<open>Properties of the configuration loader\<close>

lemma getEnv_unset: "env key = None \<Longrightarrow> getEnv env key d = d"
  by (simp add: getEnv_def os_Getenv_def)

lemma getEnv_empty: "env key = Some [] \<Longrightarrow> getEnv env key d = d"
  by (simp add: getEnv_def os_Getenv_def)

lemma getEnv_set: "env key = Some v \<Longrightarrow> v \<noteq> [] \<Longrightarrow> getEnv env key d = v"
  by (simp add: getEnv_def os_Getenv_def)

lemma LoadConfig_JWTSecret:
  "JWTSecret (fst (LoadConfig load p)) = getEnv (effective_env load p) ''JWT_SECRET'' ''secret''"
  by (simp add: LoadConfig_def effective_env_def Let_def)

lemma LoadConfig_environ: "environ (snd (LoadConfig load p)) = effective_env load p"
  by (simp add: LoadConfig_def effective_env_def Let_def)

text \<open>
  C10. \<^verbatim>\<open>LoadConfig\<close> has no failing path: it always returns a configuration, and stores
  that same configuration in the package global. Every \<^verbatim>\<open>getEnv\<close> lookup returns the
  hard-coded default when the variable is unset or set to the empty string; so when
  \<^verbatim>\<open>JWT_SECRET\<close> is unset or empty in the environment the lookups read, the
  \<^verbatim>\<open>JWTSecret\<close> field is the string "secret".
\<close>

theorem LoadConfig_defaults_on_missing_env:
  assumes "env key = None \<or> env key = Some []"
    and "effective_env load p ''JWT_SECRET'' = None \<or> effective_env load p ''JWT_SECRET'' = Some []"
  shows "getEnv env key d = d
    \<and> JWTSecret (fst (LoadConfig load p)) = ''secret''
    \<and> config (snd (LoadConfig load p)) = Some (fst (LoadConfig load p))"
proof -
  from assms(1) have a: "getEnv env key d = d"
    using getEnv_unset getEnv_empty by blast
  from assms(2) have "getEnv (effective_env load p) ''JWT_SECRET'' ''secret'' = ''secret''"
    using getEnv_unset getEnv_empty by blast
  then have b: "JWTSecret (fst (LoadConfig load p)) = ''secret''"
    by (simp add: LoadConfig_JWTSecret)
  have c: "config (snd (LoadConfig load p)) = Some (fst (LoadConfig load p))"
    by (simp add: LoadConfig_def Let_def)
  from a b c show ?thesis by simp
qed

text \<open>
  The theorem at a process whose only variable is an empty \<^verbatim>\<open>JWT_SECRET\<close> and whose
  \<^verbatim>\<open>.env\<close> file is missing.
\<close>

theorem LoadConfig_defaults_on_missing_env_witness:
  "(Map.empty(''JWT_SECRET'' \<mapsto> [])) ''APP_PORT'' = None
   \<and> effective_env (\<lambda>e. (Some ''open .env: no such file or directory'', e))
        \<lparr>environ = Map.empty(''JWT_SECRET'' \<mapsto> []), once_done = False, config = None, log_lines = []\<rparr>
        ''JWT_SECRET'' = Some []
   \<and> getEnv (Map.empty(''JWT_SECRET'' \<mapsto> [])) ''APP_PORT'' ''8080'' = ''8080''
   \<and> JWTSecret (fst (LoadConfig (\<lambda>e. (Some ''open .env: no such file or directory'', e))
        \<lparr>environ = Map.empty(''JWT_SECRET'' \<mapsto> []), once_done = False, config = None, log_lines = []\<rparr>))
      = ''secret''"
proof -
  let ?env = "(Map.empty(''JWT_SECRET'' \<mapsto> [])) :: environment"
  let ?load = "(\<lambda>e. (Some ''open .env: no such file or directory'', e)) :: dotenv_Load"
  let ?p = "\<lparr>environ = ?env, once_done = False, config = None, log_lines = []\<rparr>"
  have h1: "?env ''APP_PORT'' = None \<or> ?env ''APP_PORT'' = Some []"
    by simp
  have e: "effective_env ?load ?p ''JWT_SECRET'' = Some []"
    by (simp add: effective_env_def once_Do_def)
  then have h2: "effective_env ?load ?p ''JWT_SECRET'' = None
      \<or> effective_env ?load ?p ''JWT_SECRET'' = Some []"
    by simp
  from LoadConfig_defaults_on_missing_env
         [where env = ?env and key = "''APP_PORT''" and load = ?load and p = ?p and d = "''8080''"]
       h1 h2 e
  show ?thesis
    by simp
qed


section \<open>Properties of the handlers\<close>

lemma FindUserByEmail_absent:
  assumes "email \<notin> set (map Email (users r))"
  shows "\<exists>e. FindUserByEmail r email = Inl e"
proof -
  from assms have "find (\<lambda>u. Email u = email) (users r) = None"
    by (auto simp: find_None_iff)
  then show ?thesis by (simp add: FindUserByEmail_def)
qed

lemma Login_unknown_email:
  "FindUserByEmail (userRepo h) (Email user) = Inl e \<Longrightarrow>
   Login bc jw h now (Bound user) = JSON StatusUnauthorized [(''error'', Text ''Invalid credentials'')]"
  by (simp add: Login_def)

lemma Login_wrong_password:
  "FindUserByEmail (userRepo h) (Email user) = Inr dbUser \<Longrightarrow>
   \<not> CheckPasswordHash bc (Password user) (Password dbUser) \<Longrightarrow>
   Login bc jw h now (Bound user) = JSON StatusUnauthorized [(''error'', Text ''Invalid credentials'')]"
  by (simp add: Login_def)

lemma registered_handler_eq:
  "registered_handler =
     \<lparr>userRepo = \<lparr>users = [\<lparr>ID = 1, Email = ''a@b.com'', Password = ''$2a$10$password1''\<rparr>],
                  serial = 2, reachable = True\<rparr>,
      jwtSecret = ''secret''\<rparr>"
  by (simp add: registered_handler_def Register_def HashPassword_def CreateUser_def
      plain_bcrypt_def fresh_handler_def NewAuthHandler_def sample_user_def)

lemma registered_handler_find:
  "FindUserByEmail (userRepo registered_handler) ''a@b.com''
     = Inr \<lparr>ID = 1, Email = ''a@b.com'', Password = ''$2a$10$password1''\<rparr>"
  by (simp add: registered_handler_eq FindUserByEmail_def)

text \<open>
  C4. A login whose email is in no row of the users table and a login whose email is
  found but whose password does not match the stored hash get the same response:
  status 401 with the body \<^verbatim>\<open>{"error": "Invalid credentials"}\<close>. The two runs may differ
  in everything else (handler, libraries, clock).
\<close>

theorem Login_unknown_email_same_as_wrong_password:
  assumes "Email user1 \<notin> set (map Email (users (userRepo h1)))"
    and "FindUserByEmail (userRepo h2) (Email user2) = Inr dbUser"
    and "\<not> CheckPasswordHash bc2 (Password user2) (Password dbUser)"
  shows "Login bc1 jw1 h1 now1 (Bound user1) = Login bc2 jw2 h2 now2 (Bound user2)
     \<and> Login bc1 jw1 h1 now1 (Bound user1)
         = JSON StatusUnauthorized [(''error'', Text ''Invalid credentials'')]"
proof -
  from assms(1) obtain e where "FindUserByEmail (userRepo h1) (Email user1) = Inl e"
    using FindUserByEmail_absent by blast
  then have a: "Login bc1 jw1 h1 now1 (Bound user1)
      = JSON StatusUnauthorized [(''error'', Text ''Invalid credentials'')]"
    by (rule Login_unknown_email)
  from assms(2,3) have b: "Login bc2 jw2 h2 now2 (Bound user2)
      = JSON StatusUnauthorized [(''error'', Text ''Invalid credentials'')]"
    by (rule Login_wrong_password)
  from a b show ?thesis by simp
qed

text \<open>
  The theorem with \<^verbatim>\<open>a@b.com\<close> registered: a login for the unknown \<^verbatim>\<open>x@y.com\<close> against
  a login for \<^verbatim>\<open>a@b.com\<close> with the password "wrong".
\<close>

theorem Login_unknown_email_same_as_wrong_password_witness:
  "''x@y.com'' \<notin> set (map Email (users (userRepo registered_handler)))
   \<and> \<not> CheckPasswordHash plain_bcrypt ''wrong'' ''$2a$10$password1''
   \<and> Login plain_bcrypt plain_jwt registered_handler 1000
        (Bound \<lparr>ID = 0, Email = ''x@y.com'', Password = ''wrong''\<rparr>)
      = Login plain_bcrypt plain_jwt registered_handler 1000
        (Bound \<lparr>ID = 0, Email = ''a@b.com'', Password = ''wrong''\<rparr>)
   \<and> Login plain_bcrypt plain_jwt registered_handler 1000
        (Bound \<lparr>ID = 0, Email = ''x@y.com'', Password = ''wrong''\<rparr>)
      = JSON StatusUnauthorized [(''error'', Text ''Invalid credentials'')]"
proof -
  let ?u1 = "\<lparr>ID = 0, Email = ''x@y.com'', Password = ''wrong''\<rparr>"
  let ?u2 = "\<lparr>ID = 0, Email = ''a@b.com'', Password = ''wrong''\<rparr>"
  let ?db = "\<lparr>ID = 1, Email = ''a@b.com'', Password = ''$2a$10$password1''\<rparr>"
  have h1: "Email ?u1 \<notin> set (map Email (users (userRepo registered_handler)))"
    by (simp add: registered_handler_eq)
  have h2: "FindUserByEmail (userRepo registered_handler) (Email ?u2) = Inr ?db"
    by (simp add: registered_handler_find)
  have h3: "\<not> CheckPasswordHash plain_bcrypt (Password ?u2) (Password ?db)"
    by (simp add: CheckPasswordHash_def plain_bcrypt_def)
  from Login_unknown_email_same_as_wrong_password [OF h1 h2 h3] h1 h3
  show ?thesis by simp
qed

text \<open>
  C1. The account that \<^verbatim>\<open>Register\<close> has just created for \<^verbatim>\<open>a@b.com\<close>, which
  nothing has activated, logs in with its password: \<^verbatim>\<open>Login\<close> goes from the password
  check straight to the token and answers status 200 with a token, not 401. User rows
  hold an id, an email and a password hash, and no activation status.
\<close>

theorem Login_after_Register_is_200:
  "fst (Register plain_bcrypt fresh_handler (Bound sample_user))
     = JSON StatusCreated [(''message'', Text ''User created successfully'')]
   \<and> Login plain_bcrypt plain_jwt
        (fst (snd (Register plain_bcrypt fresh_handler (Bound sample_user)))) 1000 (Bound sample_user)
     = JSON StatusOK
         [(''token'', TokenText (Compact ''HS256''
             [(''user_id'', Num 1), (''email'', Str ''a@b.com''), (''exp'', Num 87400)] ''secret''))]"
proof -
  have r: "fst (Register plain_bcrypt fresh_handler (Bound sample_user))
     = JSON StatusCreated [(''message'', Text ''User created successfully'')]"
    by (simp add: Register_def HashPassword_def CreateUser_def
        plain_bcrypt_def fresh_handler_def NewAuthHandler_def sample_user_def)
  have l: "Login plain_bcrypt plain_jwt registered_handler 1000 (Bound sample_user)
     = JSON StatusOK
         [(''token'', TokenText (Compact ''HS256''
             [(''user_id'', Num 1), (''email'', Str ''a@b.com''), (''exp'', Num 87400)] ''secret''))]"
    by (simp add: Login_def FindUserByEmail_def sample_user_def CheckPasswordHash_def
        plain_bcrypt_def registered_handler_eq plain_jwt_def login_token_def
        NewWithClaims_def SigningMethodHS256_def)
  from r l show ?thesis by (simp add: registered_handler_def)
qed

text \<open>
  C5. A request whose email is not an address and whose password has five characters
  is bound, its password is hashed, the row is inserted and the answer is 201, not 400:
  \<^verbatim>\<open>Register\<close> checks nothing between binding the body and hashing.
\<close>

theorem Register_invalid_input_is_201:
  "Register plain_bcrypt fresh_handler
     (Bound \<lparr>ID = 0, Email = ''not-an-email'', Password = ''short''\<rparr>)
   = (JSON StatusCreated [(''message'', Text ''User created successfully'')],
      \<lparr>userRepo = \<lparr>users = [\<lparr>ID = 1, Email = ''not-an-email'', Password = ''$2a$10$short''\<rparr>],
                   serial = 2, reachable = True\<rparr>,
       jwtSecret = ''secret''\<rparr>,
      [Hash_call ''short'', Insert_call ''not-an-email'' ''$2a$10$short''])"
  by (simp add: Register_def HashPassword_def CreateUser_def
      plain_bcrypt_def fresh_handler_def NewAuthHandler_def)

text \<open>
  C6. Registering \<^verbatim>\<open>a@b.com\<close> once is answered 201; registering the same email
  again hits the table's UNIQUE constraint, and the handler answers that error like any
  other repository error: status 500 with "Failed to create user", not 409.
\<close>

theorem Register_twice_is_500:
  "fst (Register plain_bcrypt fresh_handler (Bound sample_user))
     = JSON StatusCreated [(''message'', Text ''User created successfully'')]
   \<and> CreateUser (userRepo registered_handler) ''a@b.com'' ''$2a$10$password1''
     = (Some UniqueViolation, userRepo registered_handler)
   \<and> fst (Register plain_bcrypt registered_handler (Bound sample_user))
     = JSON StatusInternalServerError [(''error'', Text ''Failed to create user'')]"
  by (simp add: registered_handler_eq Register_def HashPassword_def CreateUser_def
      plain_bcrypt_def fresh_handler_def NewAuthHandler_def sample_user_def)


section \<open>Properties of the identity tokens\<close>

lemma hs_roundtrip_valid:
  assumes "now \<le> issuedAt + 24 * 3600"
  shows "hs_Parse m (fst (hs_SignedString m (login_token dbUser issuedAt) secret)) (\<lambda>token. secret) now
     = Inr ((login_token dbUser issuedAt)\<lparr>Valid := True\<rparr>)"
  using assms
  by (simp add: hs_Parse_def hs_SignedString_def login_token_def NewWithClaims_def claim_exp_def)

lemma hs_roundtrip_expired:
  assumes "issuedAt + 24 * 3600 < now"
  shows "hs_Parse m (fst (hs_SignedString m (login_token dbUser issuedAt) secret)) (\<lambda>token. secret) now
     = Inl Expired"
  using assms
  by (simp add: hs_Parse_def hs_SignedString_def login_token_def NewWithClaims_def claim_exp_def)

lemma default_config_secret: "JWTSecret (fst (LoadConfig no_dotenv bare_process)) = ''secret''"
  by (simp add: LoadConfig_JWTSecret effective_env_def once_Do_def no_dotenv_def
      bare_process_def getEnv_def os_Getenv_def)

text \<open>
  C7. Take the token \<^verbatim>\<open>Login\<close> builds and signs for a user row at clock reading
  \<open>issuedAt\<close>, and a middleware configured with the handler's secret. Signing returns no
  error. At every clock reading before the token's expiry (24 hours after issuance; the
  moment of issuance is one), parsing succeeds with a valid token whose \<^verbatim>\<open>user_id\<close>
  claim is the row's id, and the middleware lets the request through. At every clock
  reading past the expiry, parsing returns Expired and the middleware aborts with 401
  "Invalid token".
\<close>

theorem login_token_verifies_until_expiry:
  assumes "SignedString (hs_jwt m) (login_token dbUser issuedAt) (jwtSecret h) = (tokenString, err)"
    and "JWTSecret cfg = jwtSecret h"
  shows "err = None
     \<and> (now < issuedAt + 24 * 3600 \<longrightarrow>
          (\<exists>token. Parse (hs_jwt m) tokenString (\<lambda>token. JWTSecret cfg) now = Inr token
             \<and> Valid token \<and> map_of (Claims token) ''user_id'' = Some (Num (ID dbUser)))
          \<and> AuthMiddleware (hs_jwt m) cfg now tokenString = Next)
     \<and> (issuedAt + 24 * 3600 < now \<longrightarrow>
          Parse (hs_jwt m) tokenString (\<lambda>token. JWTSecret cfg) now = Inl Expired
          \<and> AuthMiddleware (hs_jwt m) cfg now tokenString
              = AbortWithStatusJSON (JSON StatusUnauthorized [(''error'', Text ''Invalid token'')]))"
proof -
  from assms(1) have ts: "tokenString = fst (hs_SignedString m (login_token dbUser issuedAt) (jwtSecret h))"
    and e: "err = None"
    by (simp_all add: hs_jwt_def hs_SignedString_def)
  have ne: "tokenString \<noteq> Unparsable []"
    by (simp add: ts hs_SignedString_def)
  have p: "Parse (hs_jwt m) tokenString (\<lambda>token. JWTSecret cfg) now
      = hs_Parse m tokenString (\<lambda>token. jwtSecret h) now"
    by (simp add: hs_jwt_def assms(2))
  {
    assume "now < issuedAt + 24 * 3600"
    then have "hs_Parse m tokenString (\<lambda>token. jwtSecret h) now
        = Inr ((login_token dbUser issuedAt)\<lparr>Valid := True\<rparr>)"
      unfolding ts by (intro hs_roundtrip_valid) simp
    with p have q: "Parse (hs_jwt m) tokenString (\<lambda>token. JWTSecret cfg) now
        = Inr ((login_token dbUser issuedAt)\<lparr>Valid := True\<rparr>)"
      by simp
    then have "(\<exists>token. Parse (hs_jwt m) tokenString (\<lambda>token. JWTSecret cfg) now = Inr token
             \<and> Valid token \<and> map_of (Claims token) ''user_id'' = Some (Num (ID dbUser)))"
      by (simp add: login_token_def NewWithClaims_def)
    moreover from q ne have "AuthMiddleware (hs_jwt m) cfg now tokenString = Next"
      by (simp add: AuthMiddleware_def)
    ultimately have "(\<exists>token. Parse (hs_jwt m) tokenString (\<lambda>token. JWTSecret cfg) now = Inr token
             \<and> Valid token \<and> map_of (Claims token) ''user_id'' = Some (Num (ID dbUser)))
          \<and> AuthMiddleware (hs_jwt m) cfg now tokenString = Next"
      by simp
  }
  moreover
  {
    assume "issuedAt + 24 * 3600 < now"
    then have "hs_Parse m tokenString (\<lambda>token. jwtSecret h) now = Inl Expired"
      unfolding ts by (rule hs_roundtrip_expired)
    with p have q: "Parse (hs_jwt m) tokenString (\<lambda>token. JWTSecret cfg) now = Inl Expired"
      by simp
    with ne have "Parse (hs_jwt m) tokenString (\<lambda>token. JWTSecret cfg) now = Inl Expired
          \<and> AuthMiddleware (hs_jwt m) cfg now tokenString
              = AbortWithStatusJSON (JSON StatusUnauthorized [(''error'', Text ''Invalid token'')])"
      by (simp add: AuthMiddleware_def)
  }
  ultimately show ?thesis using e by blast
qed

text \<open>
  The theorem for user 1, issued at 1000 under the default secret: once at the moment
  of issuance and once a second past the expiry 87400.
\<close>

theorem login_token_verifies_until_expiry_witness:
  "SignedString (hs_jwt key_mac)
       (login_token \<lparr>ID = 1, Email = ''a@b.com'', Password = ''$2a$10$password1''\<rparr> 1000)
       (jwtSecret fresh_handler)
     = (Compact ''HS256''
          [(''user_id'', Num 1), (''email'', Str ''a@b.com''), (''exp'', Num 87400)] ''secret'', None)
   \<and> JWTSecret (fst (LoadConfig no_dotenv bare_process)) = jwtSecret fresh_handler
   \<and> AuthMiddleware (hs_jwt key_mac) (fst (LoadConfig no_dotenv bare_process)) 1000
        (Compact ''HS256''
          [(''user_id'', Num 1), (''email'', Str ''a@b.com''), (''exp'', Num 87400)] ''secret'')
     = Next
   \<and> Parse (hs_jwt key_mac)
        (Compact ''HS256''
          [(''user_id'', Num 1), (''email'', Str ''a@b.com''), (''exp'', Num 87400)] ''secret'')
        (\<lambda>token. JWTSecret (fst (LoadConfig no_dotenv bare_process))) 87401
     = Inl Expired
   \<and> AuthMiddleware (hs_jwt key_mac) (fst (LoadConfig no_dotenv bare_process)) 87401
        (Compact ''HS256''
          [(''user_id'', Num 1), (''email'', Str ''a@b.com''), (''exp'', Num 87400)] ''secret'')
     = AbortWithStatusJSON (JSON StatusUnauthorized [(''error'', Text ''Invalid token'')])"
proof -
  let ?u = "\<lparr>ID = 1, Email = ''a@b.com'', Password = ''$2a$10$password1''\<rparr>"
  let ?ts = "Compact ''HS256''
      [(''user_id'', Num 1), (''email'', Str ''a@b.com''), (''exp'', Num 87400)] ''secret''"
  let ?cfg = "fst (LoadConfig no_dotenv bare_process)"
  have h1: "SignedString (hs_jwt key_mac) (login_token ?u 1000) (jwtSecret fresh_handler)
      = (?ts, None)"
    by (simp add: hs_jwt_def hs_SignedString_def login_token_def NewWithClaims_def
        SigningMethodHS256_def key_mac_def fresh_handler_def NewAuthHandler_def)
  have h2: "JWTSecret ?cfg = jwtSecret fresh_handler"
    by (simp add: default_config_secret fresh_handler_def NewAuthHandler_def)
  have early: "(1000::int) < 1000 + 24 * 3600" and late: "(1000::int) + 24 * 3600 < 87401"
    by simp_all
  from login_token_verifies_until_expiry [OF h1 h2, of 1000] early
  have a: "AuthMiddleware (hs_jwt key_mac) ?cfg 1000 ?ts = Next"
    by blast
  from login_token_verifies_until_expiry [OF h1 h2, of 87401] late
  have b: "Parse (hs_jwt key_mac) ?ts (\<lambda>token. JWTSecret ?cfg) 87401 = Inl Expired
      \<and> AuthMiddleware (hs_jwt key_mac) ?cfg 87401 ?ts
        = AbortWithStatusJSON (JSON StatusUnauthorized [(''error'', Text ''Invalid token'')])"
    by blast
  from h1 h2 a b show ?thesis by simp
qed


section \<open>Properties of the activation tokens\<close>


lemma Validate_other_value:
  "v \<noteq> v' \<Longrightarrow> snd (Validate store now v') v = store v"
  by (simp add: Validate_def split: option.splits)

lemma Validate_past_expiry:
  "store v = Some tok \<Longrightarrow> expiry tok < now \<Longrightarrow> Validate store now v = (Inl ActivationExpired, store)"
  by (simp add: Validate_def)

lemma Validate_consumed_keeps_store:
  "store v = Some tok \<Longrightarrow> consumed tok \<Longrightarrow> snd (Validate store now v) = store"
  by (simp add: Validate_def)

lemma Validate_keeps_expired_entry:
  assumes "store v = Some tok" and "expiry tok < now"
  shows "snd (Validate store now v') v = Some tok"
proof (cases "v' = v")
  case True
  with assms show ?thesis by (simp add: Validate_past_expiry)
next
  case False
  with assms show ?thesis by (simp add: Validate_other_value)
qed

lemma Validate_keeps_consumed_entry:
  assumes "store v = Some tok" and "consumed tok"
  shows "snd (Validate store now v') v = Some tok"
proof (cases "v' = v")
  case True
  with assms show ?thesis by (simp add: Validate_consumed_keeps_store)
next
  case False
  with assms show ?thesis by (simp add: Validate_other_value)
qed

lemma validations_keep_expired_entry:
  "store v = Some tok \<Longrightarrow> expiry tok < now \<Longrightarrow> \<forall>c\<in>set calls. now \<le> fst c \<Longrightarrow>
   validations store calls v = Some tok"
proof (induction calls arbitrary: store)
  case Nil
  then show ?case by simp
next
  case (Cons c calls)
  obtain t v' where c: "c = (t, v')" by (cases c)
  from Cons.prems c have "expiry tok < t" by simp
  with Cons.prems(1) have "snd (Validate store t v') v = Some tok"
    by (rule Validate_keeps_expired_entry)
  moreover from Cons.prems have "\<forall>c\<in>set calls. now \<le> fst c" by simp
  ultimately have "validations (snd (Validate store t v')) calls v = Some tok"
    using Cons.IH Cons.prems(2) by blast
  with c show ?case by simp
qed

lemma validations_keep_consumed_entry:
  "store v = Some tok \<Longrightarrow> consumed tok \<Longrightarrow> validations store calls v = Some tok"
proof (induction calls arbitrary: store)
  case Nil
  then show ?case by simp
next
  case (Cons c calls)
  obtain t v' where c: "c = (t, v')" by (cases c)
  from Cons.prems have "snd (Validate store t v') v = Some tok"
    by (rule Validate_keeps_consumed_entry)
  then have "validations (snd (Validate store t v')) calls v = Some tok"
    using Cons.IH Cons.prems(2) by blast
  with c show ?case by simp
qed

text \<open>
  C8. For a stored activation token: when its expiry has passed, \<^verbatim>\<open>Validate\<close> on its
  value returns Expired and leaves the store as it was, whether or not the consumed flag
  is set. A token that is past its expiry and unconsumed keeps its entry through every
  later history of \<^verbatim>\<open>Validate\<close> calls (on any values, at clock readings from \<open>now\<close> on),
  so it stays Expired and never becomes Consumed; a Consumed token keeps its entry
  through every history, so it stays Consumed and never becomes Expired.
\<close>

theorem Validate_expired_without_consuming:
  assumes "store v = Some tok"
  shows "(expiry tok < now \<longrightarrow>
            Validate store now v = (Inl ActivationExpired, store))
     \<and> (state_of tok now = Expired_unconsumed \<and> (\<forall>c\<in>set calls. now \<le> fst c) \<longrightarrow>
            validations store calls v = Some tok
            \<and> (\<forall>t. now \<le> t \<longrightarrow> state_of tok t = Expired_unconsumed))
     \<and> (state_of tok now = Consumed \<longrightarrow>
            validations store calls v = Some tok \<and> (\<forall>t. state_of tok t = Consumed))"
proof (intro conjI impI)
  assume "expiry tok < now"
  with assms show "Validate store now v = (Inl ActivationExpired, store)"
    by (rule Validate_past_expiry)
next
  assume a: "state_of tok now = Expired_unconsumed \<and> (\<forall>c\<in>set calls. now \<le> fst c)"
  then have e: "expiry tok < now" and nc: "\<not> consumed tok"
    by (auto simp: state_of_def split: if_splits)
  from assms e a show "validations store calls v = Some tok"
    using validations_keep_expired_entry by blast
  from e nc show "\<forall>t. now \<le> t \<longrightarrow> state_of tok t = Expired_unconsumed"
    by (simp add: state_of_def)
next
  assume "state_of tok now = Consumed"
  then have c: "consumed tok"
    by (auto simp: state_of_def split: if_splits)
  with assms show "validations store calls v = Some tok"
    by (rule validations_keep_consumed_entry)
  from c show "\<forall>t. state_of tok t = Consumed"
    by (simp add: state_of_def)
qed

text \<open>
  The theorem on the two sample tokens, from clock reading 101 on: the open one is
  expired and stays so, the used one stays consumed, through three further calls.
\<close>

theorem Validate_expired_without_consuming_witness:
  "sample_store ''t-open'' = Some \<lparr>owner = 1, expiry = 100, consumed = False\<rparr>
   \<and> state_of \<lparr>owner = 1, expiry = 100, consumed = False\<rparr> 101 = Expired_unconsumed
   \<and> Validate sample_store 101 ''t-open'' = (Inl ActivationExpired, sample_store)
   \<and> validations sample_store [(101, ''t-open''), (150, ''t-used''), (200, ''t-open'')] ''t-open''
       = Some \<lparr>owner = 1, expiry = 100, consumed = False\<rparr>
   \<and> sample_store ''t-used'' = Some \<lparr>owner = 2, expiry = 100, consumed = True\<rparr>
   \<and> state_of \<lparr>owner = 2, expiry = 100, consumed = True\<rparr> 101 = Consumed
   \<and> Validate sample_store 101 ''t-used'' = (Inl ActivationExpired, sample_store)
   \<and> validations sample_store [(101, ''t-open''), (150, ''t-used''), (200, ''t-open'')] ''t-used''
       = Some \<lparr>owner = 2, expiry = 100, consumed = True\<rparr>"
proof -
  let ?open = "\<lparr>owner = 1, expiry = 100, consumed = False\<rparr>"
  let ?used = "\<lparr>owner = 2, expiry = 100, consumed = True\<rparr>"
  let ?calls = "[(101, ''t-open''), (150, ''t-used''), (200, ''t-open'')] :: (int \<times> string) list"
  have s1: "sample_store ''t-open'' = Some ?open"
    by (simp add: sample_store_def)
  have s2: "sample_store ''t-used'' = Some ?used"
    by (simp add: sample_store_def)
  have e1: "expiry ?open < 101" and e2: "expiry ?used < 101"
    by simp_all
  have st1: "state_of ?open 101 = Expired_unconsumed"
    by (simp add: state_of_def)
  have st2: "state_of ?used 101 = Consumed"
    by (simp add: state_of_def)
  have later: "\<forall>c\<in>set ?calls. 101 \<le> fst c"
    by simp
  from Validate_expired_without_consuming
         [where store = sample_store and v = "''t-open''" and tok = ?open and now = 101
            and calls = ?calls]
       s1 e1 st1 later
  have a: "Validate sample_store 101 ''t-open'' = (Inl ActivationExpired, sample_store)
      \<and> validations sample_store ?calls ''t-open'' = Some ?open"
    by blast
  from Validate_expired_without_consuming
         [where store = sample_store and v = "''t-used''" and tok = ?used and now = 101
            and calls = ?calls]
       s2 e2 st2
  have b: "Validate sample_store 101 ''t-used'' = (Inl ActivationExpired, sample_store)
      \<and> validations sample_store ?calls ''t-used'' = Some ?used"
    by blast
  from s1 s2 st1 st2 a b show ?thesis by blast
qed

end
